theory Spec2Isabelle
  imports Main "HOL-Library.Sublist"
begin

text \<open>
  The build logic of the repository is the object that \<^verbatim>\<open>webpack.config.js\<close> exports;
  the bundler that reads it (resolver, cache, emitter, development server) is a program of
  its own and not part of the sources. The theory embeds the configuration, the regular
  expressions in it, the choice of the rules and loaders for a file, and the scenario of
  the entry module.
\<close>

section \<open>Regular expressions of the configuration\<close>

text \<open>
  \<^verbatim>\<open>webpack.config.js\<close> selects files with four JavaScript regular expression
  literals: \<^verbatim>\<open>/\.ts?$/\<close>, \<^verbatim>\<open>/node_modules/\<close>, \<^verbatim>\<open>/\.css$/i\<close> and
  \<^verbatim>\<open>/\.s[ac]ss$/i\<close>. They use literal characters, one character class, one optional
  character and the end anchor, so a pattern is a sequence of such atoms. A path is a
  \<^typ>\<open>string\<close>.
\<close>

datatype atom =
    Chr char
  | OneOf "char list"
  | Opt atom
  | Eol

record regexp =
  source :: "atom list"
  ignore_case :: bool

text \<open>
  Under the \<^verbatim>\<open>i\<close> flag both sides are canonicalised before they are compared. Without
  the \<^verbatim>\<open>u\<close> flag JavaScript maps a character to its upper case and never maps a
  character outside ASCII to one inside, so for the ASCII patterns of the configuration
  it is enough to fold \<^verbatim>\<open>a-z\<close> to \<^verbatim>\<open>A-Z\<close> and to leave every other character alone.
\<close>

definition canonicalize :: "bool \<Rightarrow> char \<Rightarrow> char" where
  "canonicalize ic c =
     (if ic
      then (case map_of (zip ''abcdefghijklmnopqrstuvwxyz'' ''ABCDEFGHIJKLMNOPQRSTUVWXYZ'') c of
              Some u \<Rightarrow> u
            | None \<Rightarrow> c)
      else c)"

definition char_match :: "bool \<Rightarrow> char \<Rightarrow> char \<Rightarrow> bool" where
  "char_match ic c x = (canonicalize ic c = canonicalize ic x)"

text \<open>
  \<open>match_here ic p s\<close>: the pattern \<open>p\<close> matches a prefix of \<open>s\<close>; \<^verbatim>\<open>$\<close> (no
  \<^verbatim>\<open>m\<close> flag) matches only where the input ends. An optional atom is tried first with
  the atom, then without it, as the backtracking matcher does.
\<close>

function match_here :: "bool \<Rightarrow> atom list \<Rightarrow> string \<Rightarrow> bool" where
  "match_here ic [] s = True"
| "match_here ic (Eol # r) s = (s = [] \<and> match_here ic r s)"
| "match_here ic (Chr c # r) [] = False"
| "match_here ic (Chr c # r) (x # xs) = (char_match ic c x \<and> match_here ic r xs)"
| "match_here ic (OneOf cs # r) [] = False"
| "match_here ic (OneOf cs # r) (x # xs) =
     ((\<exists>c \<in> set cs. char_match ic c x) \<and> match_here ic r xs)"
| "match_here ic (Opt a # r) s = (match_here ic (a # r) s \<or> match_here ic r s)"
  by pat_completeness auto
termination
  by (relation "measure (\<lambda>(ic, p, s). size_list size p)") auto

text \<open>
  \<^verbatim>\<open>RegExp.prototype.test\<close> on a regular expression without the \<^verbatim>\<open>g\<close> and \<^verbatim>\<open>y\<close>
  flags: the match is attempted at every start index from 0 to the length of the input.
\<close>

fun search :: "bool \<Rightarrow> atom list \<Rightarrow> string \<Rightarrow> bool" where
  "search ic p [] = match_here ic p []"
| "search ic p (x # xs) = (match_here ic p (x # xs) \<or> search ic p xs)"

definition re_test :: "regexp \<Rightarrow> string \<Rightarrow> bool" where
  "re_test re s = search (ignore_case re) (source re) s"


section \<open>The configuration object\<close>

text \<open>
  The object that \<^verbatim>\<open>webpack.config.js\<close> exports, field by field. A rule's \<^verbatim>\<open>use\<close> is
  a list of loader names (the single string \<^verbatim>\<open>"ts-loader"\<close> is the one-element list).
  \<^verbatim>\<open>__dirname\<close>, the directory of the configuration file, is the parameter \<open>dirname\<close>.
\<close>

datatype mode = Development | Production

datatype plugin = HtmlWebpackPlugin (template: string)

record rule =
  test :: regexp
  use :: "string list"
  exclude :: "regexp option"

record output_options =
  path :: string

record module_options =
  rules :: "rule list"

record resolve_options =
  extensions :: "string list"

record configuration =
  mode :: mode
  entry :: string
  output_opts :: output_options
  plugins :: "plugin list"
  module_opts :: module_options
  resolve :: resolve_options

text \<open>
  \<^verbatim>\<open>path.resolve(__dirname, "build")\<close> for an absolute \<^verbatim>\<open>__dirname\<close>: the segment is
  appended behind one separator.
\<close>

definition path_resolve :: "string \<Rightarrow> string \<Rightarrow> string" where
  "path_resolve dir seg = (if dir = ''/'' then dir @ seg else dir @ ''/'' @ seg)"

definition ts_test :: regexp where
  "ts_test = \<lparr>source = [Chr CHR ''.'', Chr CHR ''t'', Opt (Chr CHR ''s''), Eol],
              ignore_case = False\<rparr>"

definition node_modules_re :: regexp where
  "node_modules_re = \<lparr>source = map Chr ''node_modules'', ignore_case = False\<rparr>"

definition css_test :: regexp where
  "css_test = \<lparr>source = [Chr CHR ''.'', Chr CHR ''c'', Chr CHR ''s'', Chr CHR ''s'', Eol],
               ignore_case = True\<rparr>"

definition scss_test :: regexp where
  "scss_test =
     \<lparr>source = [Chr CHR ''.'', Chr CHR ''s'', OneOf ''ac'', Chr CHR ''s'', Chr CHR ''s'', Eol],
      ignore_case = True\<rparr>"

definition ts_rule :: rule where
  "ts_rule = \<lparr>test = ts_test, use = [''ts-loader''], exclude = Some node_modules_re\<rparr>"

definition css_rule :: rule where
  "css_rule = \<lparr>test = css_test, use = [''style-loader'', ''css-loader''], exclude = None\<rparr>"

definition scss_rule :: rule where
  "scss_rule =
     \<lparr>test = scss_test, use = [''style-loader'', ''css-loader'', ''sass-loader''],
      exclude = None\<rparr>"

definition webpack_config :: "string \<Rightarrow> configuration" where
  "webpack_config dirname =
     \<lparr>mode = Development,
      entry = ''./src/index.ts'',
      output_opts = \<lparr>path = path_resolve dirname ''build''\<rparr>,
      plugins = [HtmlWebpackPlugin ''./public/index.html''],
      module_opts = \<lparr>rules = [ts_rule, css_rule, scss_rule]\<rparr>,
      resolve = \<lparr>extensions = [''.tsx'', ''.ts'', ''.js'']\<rparr>\<rparr>"


section \<open>Which rules apply to a file\<close>

text \<open>
  A rule applies to a resource when its \<^verbatim>\<open>test\<close> matches the resource's path and its
  \<^verbatim>\<open>exclude\<close>, when there is one, does not. The loaders of a file are the \<^verbatim>\<open>use\<close>
  entries of the rules that apply, in the order of the configuration; they run from the
  last entry to the first.
\<close>

definition rule_applies :: "rule \<Rightarrow> string \<Rightarrow> bool" where
  "rule_applies r p =
     (re_test (test r) p \<and> (case exclude r of None \<Rightarrow> True | Some e \<Rightarrow> \<not> re_test e p))"

definition matching_rules :: "configuration \<Rightarrow> string \<Rightarrow> rule list" where
  "matching_rules cfg p = filter (\<lambda>r. rule_applies r p) (rules (module_opts cfg))"

definition loaders_for :: "configuration \<Rightarrow> string \<Rightarrow> string list" where
  "loaders_for cfg p = concat (map use (matching_rules cfg p))"

definition application_order :: "configuration \<Rightarrow> string \<Rightarrow> string list" where
  "application_order cfg p = rev (loaders_for cfg p)"


section \<open>Files under \<^verbatim>\<open>node_modules\<close>\<close>

text \<open>
  A path is under \<^verbatim>\<open>node_modules\<close> when one of its directory components (every
  component but the last, the file name) is \<^verbatim>\<open>node_modules\<close>. The bundler hands the
  rules the absolute path of a file in the notation of the platform, so components are
  separated by a slash or by a backslash (\<open>CHR 0x5C\<close>).
\<close>

definition is_separator :: "char \<Rightarrow> bool" where
  "is_separator c = (c = CHR ''/'' \<or> c = CHR 0x5C)"

fun split_path :: "string \<Rightarrow> string list" where
  "split_path [] = [[]]"
| "split_path (c # cs) =
     (if is_separator c then [] # split_path cs
      else (case split_path cs of
              [] \<Rightarrow> [[c]]
            | seg # segs \<Rightarrow> (c # seg) # segs))"

definition under_node_modules :: "string \<Rightarrow> bool" where
  "under_node_modules p = (''node_modules'' \<in> set (butlast (split_path p)))"


section \<open>What happens to a style\<close>

text \<open>
  Modelled from the spec: the loaders are npm packages and not part of the sources; what
  the last loader of a style chain does with the compiled style is taken from the build
  notes of the repository (\<^verbatim>\<open>style-loader\<close> injects the style when the script runs,
  \<^verbatim>\<open>MiniCssExtractPlugin.loader\<close> is its replacement that extracts CSS files) and from
  the output layout of the spec (separate files, or injected at runtime).
\<close>

datatype style_output = InjectedAtRuntime | SeparateFile | NoStyleOutput

definition style_output_of :: "string list \<Rightarrow> style_output" where
  "style_output_of applied =
     (case applied of
        [] \<Rightarrow> NoStyleOutput
      | _ # _ \<Rightarrow>
          if last applied = ''style-loader'' then InjectedAtRuntime
          else if last applied = ''MiniCssExtractPlugin.loader'' then SeparateFile
          else NoStyleOutput)"

definition style_output_for :: "configuration \<Rightarrow> string \<Rightarrow> style_output" where
  "style_output_for cfg p = style_output_of (application_order cfg p)"

text \<open>
  The mode of the configuration file can be overridden when the bundler is started
  (\<^verbatim>\<open>webpack --mode production\<close>); every other field is used as the file gives it.
\<close>

definition with_mode :: "mode \<Rightarrow> configuration \<Rightarrow> configuration" where
  "with_mode m cfg = cfg\<lparr>mode := m\<rparr>"


section \<open>The entry module and its build\<close>

text \<open>
  Modelled from the spec: \<^verbatim>\<open>src/index.ts\<close> and \<^verbatim>\<open>src/test.js\<close> are not among the
  sources. The scenario of the spec has an entry that imports a style with no code export
  and a utility that exports \<^verbatim>\<open>foo\<close>, and calls \<^verbatim>\<open>foo('hello world')\<close>; the
  application notes give the module as
  \<^verbatim>\<open>import './styles/global.scss'; import foo from './test'; foo('hello world');\<close>.
  A module body is a list of statements of these three forms.
\<close>

datatype stmt =
    ImportSideEffect string
  | ImportDefault string string
  | CallStmt string string

definition index_ts :: "stmt list" where
  "index_ts =
     [ImportSideEffect ''./styles/global.scss'',
      ImportDefault ''foo'' ''./test'',
      CallStmt ''foo'' ''hello world'']"

text \<open>
  Modelled from the spec: the files of the scenario that the two import specifiers of the
  entry module stand for, \<^verbatim>\<open>src/styles/global.scss\<close> and \<^verbatim>\<open>src/test.js\<close> in the
  application notes.
\<close>

definition scenario_imports :: "(string \<times> string) list" where
  "scenario_imports =
     [(''./styles/global.scss'', ''src/styles/global.scss''),
      (''./test'', ''src/test.js'')]"

text \<open>
  Modelled from the spec: running a module. Imports are hoisted, so every imported name is
  bound before the first statement runs; a call of a bound name is recorded with its
  argument (what a spy on the imported function observes), a call of an unbound name
  raises.
\<close>

datatype exec_error = ReferenceError string

fun imported_names :: "stmt list \<Rightarrow> string list" where
  "imported_names [] = []"
| "imported_names (ImportDefault n s # ss) = n # imported_names ss"
| "imported_names (ImportSideEffect s # ss) = imported_names ss"
| "imported_names (CallStmt f a # ss) = imported_names ss"

fun run_stmts ::
  "string list \<Rightarrow> stmt list \<Rightarrow> (string \<times> string) list \<Rightarrow> exec_error + (string \<times> string) list"
where
  "run_stmts env [] trace = Inr trace"
| "run_stmts env (CallStmt f a # ss) trace =
     (if f \<in> set env then run_stmts env ss (trace @ [(f, a)]) else Inl (ReferenceError f))"
| "run_stmts env (ImportSideEffect s # ss) trace = run_stmts env ss trace"
| "run_stmts env (ImportDefault n s # ss) trace = run_stmts env ss trace"

definition execute :: "stmt list \<Rightarrow> exec_error + (string \<times> string) list" where
  "execute body = run_stmts (imported_names body) body []"

text \<open>
  Modelled from the spec: the emitter is the bundler, which is not part of the sources.
  It makes one script chunk for each entry point (the configuration has one, a single
  string), resolves the imports of the entry module, sorts the imported files by what
  their loader chain does with a style, and writes one HTML shell for each
  \<^verbatim>\<open>HtmlWebpackPlugin\<close> of the configuration, which refers to every script chunk and
  every separate style file. An import that stands for no file is a
  \<^verbatim>\<open>ResolutionError\<close> that names the specifier and the importing unit. A chunk is
  identified by its entry point: the configuration sets no file name template, and the
  names and hashes of the written files are left out of the model.
\<close>

datatype build_error = ResolutionError string string

record html_shell =
  shell_template :: string
  script_refs :: "string list"
  style_refs :: "string list"

record asset_manifest =
  html_shells :: "html_shell list"
  script_chunks :: "(string \<times> stmt list) list"
  style_files :: "string list"
  injected_styles :: "string list"

fun import_specifiers :: "stmt list \<Rightarrow> string list" where
  "import_specifiers [] = []"
| "import_specifiers (ImportSideEffect s # ss) = s # import_specifiers ss"
| "import_specifiers (ImportDefault n s # ss) = s # import_specifiers ss"
| "import_specifiers (CallStmt f a # ss) = import_specifiers ss"

fun resolve_all ::
  "(string \<times> string) list \<Rightarrow> string \<Rightarrow> string list \<Rightarrow> build_error + string list"
where
  "resolve_all table from_unit [] = Inr []"
| "resolve_all table from_unit (s # ss) =
     (case map_of table s of
        None \<Rightarrow> Inl (ResolutionError s from_unit)
      | Some f \<Rightarrow>
          (case resolve_all table from_unit ss of
             Inl e \<Rightarrow> Inl e
           | Inr fs \<Rightarrow> Inr (f # fs)))"

definition entry_points :: "configuration \<Rightarrow> string list" where
  "entry_points cfg = [entry cfg]"

definition emit ::
  "configuration \<Rightarrow> (string \<times> string) list \<Rightarrow> stmt list \<Rightarrow> build_error + asset_manifest"
where
  "emit cfg table body =
     (case resolve_all table (entry cfg) (import_specifiers body) of
        Inl e \<Rightarrow> Inl e
      | Inr files \<Rightarrow>
          (let chunks = map (\<lambda>e. (e, body)) (entry_points cfg);
               separate = filter (\<lambda>f. style_output_for cfg f = SeparateFile) files;
               injected = filter (\<lambda>f. style_output_for cfg f = InjectedAtRuntime) files
           in Inr \<lparr>html_shells =
                      map (\<lambda>pl. \<lparr>shell_template = template pl,
                                  script_refs = map fst chunks,
                                  style_refs = separate\<rparr>) (plugins cfg),
                    script_chunks = chunks,
                    style_files = separate,
                    injected_styles = injected\<rparr>))"


section \<open>Properties of the regular expressions\<close>

lemma char_match_exact [simp]: "char_match False c x \<longleftrightarrow> c = x"
  by (simp add: char_match_def canonicalize_def)

lemma char_match_refl [simp]: "char_match ic c c"
  by (simp add: char_match_def)

lemma canon_dot [simp]: "canonicalize True CHR ''.'' = CHR ''.''"
  by (simp add: canonicalize_def)

lemma canon_s [simp]: "canonicalize True CHR ''s'' = CHR ''S''"
  by (simp add: canonicalize_def)

lemma canon_t [simp]: "canonicalize True CHR ''t'' = CHR ''T''"
  by (simp add: canonicalize_def)

lemma canon_x [simp]: "canonicalize True CHR ''x'' = CHR ''X''"
  by (simp add: canonicalize_def)

lemma match_here_Chr:
  "match_here ic (Chr c # r) s \<longleftrightarrow>
     (\<exists>x xs. s = x # xs \<and> char_match ic c x \<and> match_here ic r xs)"
  by (cases s) simp_all

lemma match_here_OneOf:
  "match_here ic (OneOf cs # r) s \<longleftrightarrow>
     (\<exists>x xs. s = x # xs \<and> (\<exists>c \<in> set cs. char_match ic c x) \<and> match_here ic r xs)"
  by (cases s) simp_all

text \<open>A search succeeds exactly when the pattern matches at the start of some suffix.\<close>

lemma search_iff: "search ic p s \<longleftrightarrow> (\<exists>pre suf. s = pre @ suf \<and> match_here ic p suf)"
proof (induction s)
  case Nil
  then show ?case by simp
next
  case (Cons x xs)
  show ?case
  proof
    assume "search ic p (x # xs)"
    then consider "match_here ic p (x # xs)" | "search ic p xs" by auto
    then show "\<exists>pre suf. x # xs = pre @ suf \<and> match_here ic p suf"
    proof cases
      case 1
      then show ?thesis by (intro exI [of _ "[]"] exI [of _ "x # xs"]) simp
    next
      case 2
      then obtain pre suf where "xs = pre @ suf" "match_here ic p suf"
        using Cons.IH by blast
      then show ?thesis by (intro exI [of _ "x # pre"] exI [of _ suf]) simp
    qed
  next
    assume "\<exists>pre suf. x # xs = pre @ suf \<and> match_here ic p suf"
    then obtain pre suf where ps: "x # xs = pre @ suf" "match_here ic p suf" by blast
    show "search ic p (x # xs)"
    proof (cases pre)
      case Nil
      with ps(1) have "suf = x # xs" by simp
      with ps(2) show ?thesis by simp
    next
      case (Cons y ys)
      with ps have "xs = ys @ suf" by simp
      with ps(2) Cons.IH show ?thesis by auto
    qed
  qed
qed

lemma ts_here: "match_here False (source ts_test) s \<longleftrightarrow> s = ''.t'' \<or> s = ''.ts''"
  by (auto simp add: ts_test_def match_here_Chr)

lemma css_here:
  "match_here True (source css_test) s \<longleftrightarrow>
     (\<exists>a b c d. s = [a, b, c, d] \<and> char_match True CHR ''.'' a \<and>
        char_match True CHR ''c'' b \<and> char_match True CHR ''s'' c \<and>
        char_match True CHR ''s'' d)"
  by (auto simp add: css_test_def match_here_Chr)

lemma scss_here:
  "match_here True (source scss_test) s \<longleftrightarrow>
     (\<exists>a b c d e. s = [a, b, c, d, e] \<and> char_match True CHR ''.'' a \<and>
        char_match True CHR ''s'' b \<and>
        (char_match True CHR ''a'' c \<or> char_match True CHR ''c'' c) \<and>
        char_match True CHR ''s'' d \<and> char_match True CHR ''s'' e)"
  by (auto simp add: scss_test_def match_here_Chr match_here_OneOf)

text \<open>\<^verbatim>\<open>/\.ts?$/\<close> accepts the paths that end in \<^verbatim>\<open>.t\<close> or in \<^verbatim>\<open>.ts\<close>.\<close>

lemma ts_test_iff: "re_test ts_test p \<longleftrightarrow> suffix ''.t'' p \<or> suffix ''.ts'' p"
proof -
  have "re_test ts_test p \<longleftrightarrow>
      (\<exists>pre suf. p = pre @ suf \<and> match_here False (source ts_test) suf)"
    by (simp add: re_test_def search_iff ts_test_def)
  also have "\<dots> \<longleftrightarrow> (\<exists>pre. p = pre @ ''.t'') \<or> (\<exists>pre. p = pre @ ''.ts'')"
    unfolding ts_here by blast
  finally show ?thesis by (simp only: suffix_def)
qed

lemma css_test_iff:
  "re_test css_test p \<longleftrightarrow>
     (\<exists>pre a b c d. p = pre @ [a, b, c, d] \<and> char_match True CHR ''.'' a \<and>
        char_match True CHR ''c'' b \<and> char_match True CHR ''s'' c \<and>
        char_match True CHR ''s'' d)"
proof -
  have "re_test css_test p \<longleftrightarrow>
      (\<exists>pre suf. p = pre @ suf \<and> match_here True (source css_test) suf)"
    by (simp add: re_test_def search_iff css_test_def)
  also have "\<dots> \<longleftrightarrow>
      (\<exists>pre a b c d. p = pre @ [a, b, c, d] \<and> char_match True CHR ''.'' a \<and>
        char_match True CHR ''c'' b \<and> char_match True CHR ''s'' c \<and>
        char_match True CHR ''s'' d)"
    unfolding css_here by blast
  finally show ?thesis .
qed

lemma scss_test_iff:
  "re_test scss_test p \<longleftrightarrow>
     (\<exists>pre a b c d e. p = pre @ [a, b, c, d, e] \<and> char_match True CHR ''.'' a \<and>
        char_match True CHR ''s'' b \<and>
        (char_match True CHR ''a'' c \<or> char_match True CHR ''c'' c) \<and>
        char_match True CHR ''s'' d \<and> char_match True CHR ''s'' e)"
proof -
  have "re_test scss_test p \<longleftrightarrow>
      (\<exists>pre suf. p = pre @ suf \<and> match_here True (source scss_test) suf)"
    by (simp add: re_test_def search_iff scss_test_def)
  also have "\<dots> \<longleftrightarrow>
      (\<exists>pre a b c d e. p = pre @ [a, b, c, d, e] \<and> char_match True CHR ''.'' a \<and>
        char_match True CHR ''s'' b \<and>
        (char_match True CHR ''a'' c \<or> char_match True CHR ''c'' c) \<and>
        char_match True CHR ''s'' d \<and> char_match True CHR ''s'' e)"
    unfolding scss_here by blast
  finally show ?thesis .
qed

lemma match_here_literal: "match_here False (map Chr w) s \<longleftrightarrow> prefix w s"
proof (induction w arbitrary: s)
  case Nil
  show ?case by simp
next
  case (Cons c w)
  show ?case by (cases s) (simp_all add: Cons.IH)
qed

text \<open>\<^verbatim>\<open>/node_modules/\<close> accepts the paths that contain the word anywhere.\<close>

lemma node_modules_re_iff: "re_test node_modules_re p \<longleftrightarrow> sublist ''node_modules'' p"
proof -
  have "re_test node_modules_re p \<longleftrightarrow>
      (\<exists>pre suf. p = pre @ suf \<and> prefix ''node_modules'' suf)"
    unfolding re_test_def node_modules_re_def
    by (simp only: regexp.simps search_iff match_here_literal)
  also have "\<dots> \<longleftrightarrow> sublist ''node_modules'' p"
    unfolding sublist_def prefix_def by blast
  finally show ?thesis .
qed

section \<open>The three test patterns accept disjoint sets of paths\<close>

text \<open>
  Each pattern is anchored at the end of the path, so two patterns accept the same path only
  if their last characters agree; comparing the reversed paths shows that they never do.
\<close>

lemma scss_not_ts:
  assumes "re_test scss_test p"
  shows "\<not> re_test ts_test p"
proof
  assume ts: "re_test ts_test p"
  from assms obtain pre a b c d e where
    p: "p = pre @ [a, b, c, d, e]" and d: "char_match True CHR ''s'' d"
    and e: "char_match True CHR ''s'' e"
    unfolding scss_test_iff by blast
  from ts consider q where "p = q @ ''.t''" | q where "p = q @ ''.ts''"
    unfolding ts_test_iff suffix_def by blast
  then show False
  proof cases
    case 1
    with p have "rev (pre @ [a, b, c, d, e]) = rev (q @ ''.t'')" by simp
    then have "e = CHR ''t''" by simp
    with e show False by (simp add: char_match_def)
  next
    case 2
    with p have "rev (pre @ [a, b, c, d, e]) = rev (q @ ''.ts'')" by simp
    then have "d = CHR ''t''" by simp
    with d show False by (simp add: char_match_def)
  qed
qed

lemma scss_not_css:
  assumes "re_test scss_test p"
  shows "\<not> re_test css_test p"
proof
  assume css: "re_test css_test p"
  from assms obtain pre a b c d e where
    p: "p = pre @ [a, b, c, d, e]" and b: "char_match True CHR ''s'' b"
    unfolding scss_test_iff by blast
  from css obtain q a' b' c' d' where
    q: "p = q @ [a', b', c', d']" and a': "char_match True CHR ''.'' a'"
    unfolding css_test_iff by blast
  from p q have "rev (pre @ [a, b, c, d, e]) = rev (q @ [a', b', c', d'])" by simp
  then have "a' = b" by simp
  with a' b have "canonicalize True CHR ''.'' = canonicalize True CHR ''s''"
    unfolding char_match_def by (simp only:)
  then show False by simp
qed

lemma css_not_ts:
  assumes "re_test css_test p"
  shows "\<not> re_test ts_test p"
proof
  assume ts: "re_test ts_test p"
  from assms obtain pre a b c d where
    p: "p = pre @ [a, b, c, d]" and c: "char_match True CHR ''s'' c"
    and d: "char_match True CHR ''s'' d"
    unfolding css_test_iff by blast
  from ts consider q where "p = q @ ''.t''" | q where "p = q @ ''.ts''"
    unfolding ts_test_iff suffix_def by blast
  then show False
  proof cases
    case 1
    with p have "rev (pre @ [a, b, c, d]) = rev (q @ ''.t'')" by simp
    then have "d = CHR ''t''" by simp
    with d show False by (simp add: char_match_def)
  next
    case 2
    with p have "rev (pre @ [a, b, c, d]) = rev (q @ ''.ts'')" by simp
    then have "c = CHR ''t''" by simp
    with c show False by (simp add: char_match_def)
  qed
qed

lemma tsx_not_ts:
  assumes "suffix ''.tsx'' p"
  shows "\<not> re_test ts_test p"
proof
  assume ts: "re_test ts_test p"
  from assms obtain pre where p: "p = pre @ ''.tsx''"
    unfolding suffix_def by blast
  from ts consider q where "p = q @ ''.t''" | q where "p = q @ ''.ts''"
    unfolding ts_test_iff suffix_def by blast
  then show False
  proof cases
    case 1
    with p have "rev (pre @ ''.tsx'') = rev (q @ ''.t'')" by simp
    then show False by simp
  next
    case 2
    with p have "rev (pre @ ''.tsx'') = rev (q @ ''.ts'')" by simp
    then show False by simp
  qed
qed

lemma tsx_not_css:
  assumes "suffix ''.tsx'' p"
  shows "\<not> re_test css_test p"
proof
  assume css: "re_test css_test p"
  from assms obtain pre where p: "p = pre @ ''.tsx''"
    unfolding suffix_def by blast
  from css obtain q a b c d where
    q: "p = q @ [a, b, c, d]" and d: "char_match True CHR ''s'' d"
    unfolding css_test_iff by blast
  from p q have "rev (pre @ ''.tsx'') = rev (q @ [a, b, c, d])" by simp
  then have "d = CHR ''x''" by simp
  with d show False by (simp add: char_match_def)
qed

lemma tsx_not_scss:
  assumes "suffix ''.tsx'' p"
  shows "\<not> re_test scss_test p"
proof
  assume scss: "re_test scss_test p"
  from assms obtain pre where p: "p = pre @ ''.tsx''"
    unfolding suffix_def by blast
  from scss obtain q a b c d e where
    q: "p = q @ [a, b, c, d, e]" and e: "char_match True CHR ''s'' e"
    unfolding scss_test_iff by blast
  from p q have "rev (pre @ ''.tsx'') = rev (q @ [a, b, c, d, e])" by simp
  then have "e = CHR ''x''" by simp
  with e show False by (simp add: char_match_def)
qed

section \<open>The rules that apply\<close>

lemma rules_of_config [simp]:
  "rules (module_opts (webpack_config d)) = [ts_rule, css_rule, scss_rule]"
  by (simp add: webpack_config_def)

lemma rule_applies_ts:
  "rule_applies ts_rule p \<longleftrightarrow> re_test ts_test p \<and> \<not> re_test node_modules_re p"
  by (simp add: rule_applies_def ts_rule_def)

lemma rule_applies_css: "rule_applies css_rule p \<longleftrightarrow> re_test css_test p"
  by (simp add: rule_applies_def css_rule_def)

lemma rule_applies_scss: "rule_applies scss_rule p \<longleftrightarrow> re_test scss_test p"
  by (simp add: rule_applies_def scss_rule_def)

lemmas rule_applies_simps = rule_applies_ts rule_applies_css rule_applies_scss

lemma scss_matching_rules:
  "re_test scss_test p \<Longrightarrow> matching_rules (webpack_config d) p = [scss_rule]"
  by (simp add: matching_rules_def rule_applies_simps scss_not_ts scss_not_css)

lemma css_matching_rules:
  "re_test css_test p \<Longrightarrow> matching_rules (webpack_config d) p = [css_rule]"
  using scss_not_css [of p]
  by (auto simp add: matching_rules_def rule_applies_simps css_not_ts)

lemma tsx_matching_rules:
  "suffix ''.tsx'' p \<Longrightarrow> matching_rules (webpack_config d) p = []"
  by (simp add: matching_rules_def rule_applies_simps tsx_not_ts tsx_not_css tsx_not_scss)

section \<open>Directory components\<close>

text \<open>Every component of a path occurs in the path as a contiguous run of characters.\<close>

lemma split_path_hd_prefix: "split_path p = seg # segs \<Longrightarrow> prefix seg p"
proof (induction p arbitrary: seg segs)
  case Nil
  then show ?case by simp
next
  case (Cons c cs)
  then show ?case
    by (auto split: if_splits list.splits)
qed

lemma split_path_sublist: "seg \<in> set (split_path p) \<Longrightarrow> sublist seg p"
proof (induction p arbitrary: seg)
  case Nil
  then show ?case by simp
next
  case (Cons c cs)
  show ?case
  proof (cases "is_separator c")
    case True
    with Cons.prems have "seg = [] \<or> seg \<in> set (split_path cs)" by simp
    then show ?thesis
      using Cons.IH by (auto simp add: sublist_Cons_right)
  next
    case False
    show ?thesis
    proof (cases "split_path cs")
      case Nil
      with False Cons.prems have "seg = [c]" by simp
      then show ?thesis by (simp add: sublist_Cons_right)
    next
      case (Cons s0 segs)
      with False Cons.prems have "seg = c # s0 \<or> seg \<in> set segs" by simp
      then show ?thesis
      proof
        assume "seg = c # s0"
        moreover from Cons have "prefix s0 cs" by (rule split_path_hd_prefix)
        ultimately have "prefix seg (c # cs)" by simp
        then show ?thesis by (rule prefix_imp_sublist)
      next
        assume "seg \<in> set segs"
        with Cons have "seg \<in> set (split_path cs)" by simp
        then have "sublist seg cs" by (rule Cons.IH)
        then show ?thesis by (simp add: sublist_Cons_right)
      qed
    qed
  qed
qed

lemma under_node_modules_excluded:
  "under_node_modules p \<Longrightarrow> re_test node_modules_re p"
proof -
  assume "under_node_modules p"
  then have "''node_modules'' \<in> set (split_path p)"
    unfolding under_node_modules_def by (rule in_set_butlastD)
  then show ?thesis
    unfolding node_modules_re_iff by (rule split_path_sublist)
qed


section \<open>Files under \<^verbatim>\<open>node_modules\<close> and the TypeScript rule\<close>

lemma ts_loader_needs_ts_rule:
  "\<not> rule_applies ts_rule p \<Longrightarrow> ''ts-loader'' \<notin> set (loaders_for (webpack_config d) p)"
  by (simp add: loaders_for_def matching_rules_def css_rule_def scss_rule_def)

lemma matching_rules_ts:
  "ts_rule \<in> set (matching_rules cfg p) \<Longrightarrow> rule_applies ts_rule p"
  by (simp add: matching_rules_def)

text \<open>
  Claim C8. For every source file whose path is under \<^verbatim>\<open>node_modules\<close> the TypeScript
  rule is not applied: the rule does not apply to the path, it is not among the rules that
  match, and \<^verbatim>\<open>ts-loader\<close> is not among the loaders of the file. Nothing is assumed about
  the file name, so this holds also when the name matches the rule's test pattern
  \<^verbatim>\<open>/\.ts?$/\<close>.
\<close>

theorem node_modules_skips_ts_rule:
  assumes "under_node_modules p"
  shows "\<not> rule_applies ts_rule p
    \<and> ts_rule \<notin> set (matching_rules (webpack_config d) p)
    \<and> ''ts-loader'' \<notin> set (loaders_for (webpack_config d) p)"
proof -
  from assms have "re_test node_modules_re p" by (rule under_node_modules_excluded)
  then have no: "\<not> rule_applies ts_rule p" by (simp add: rule_applies_ts)
  then show ?thesis
    using matching_rules_ts [of "webpack_config d" p] ts_loader_needs_ts_rule [of p d] by blast
qed

text \<open>
  A file of a package, \<^verbatim>\<open>/repo/node_modules/pkg/index.ts\<close>: its name matches the test
  pattern of the rule, and the rule is not applied.
\<close>

lemma vendor_file_under: "under_node_modules ''/repo/node_modules/pkg/index.ts''"
  by (simp add: under_node_modules_def is_separator_def)

lemma vendor_file_ts: "re_test (test ts_rule) ''/repo/node_modules/pkg/index.ts''"
  by (simp add: ts_rule_def ts_test_iff suffix_def)

theorem node_modules_skips_ts_rule_witness:
  "under_node_modules ''/repo/node_modules/pkg/index.ts''
   \<and> re_test (test ts_rule) ''/repo/node_modules/pkg/index.ts''
   \<and> \<not> rule_applies ts_rule ''/repo/node_modules/pkg/index.ts''
   \<and> ''ts-loader'' \<notin> set (loaders_for (webpack_config ''/repo'') ''/repo/node_modules/pkg/index.ts'')"
  using node_modules_skips_ts_rule [OF vendor_file_under, of "''/repo''"]
    vendor_file_under vendor_file_ts
  by simp

section \<open>The loader chains of the styles\<close>

lemma scss_loaders:
  "re_test scss_test p \<Longrightarrow>
     loaders_for (webpack_config d) p = [''style-loader'', ''css-loader'', ''sass-loader'']"
  by (simp add: loaders_for_def scss_matching_rules scss_rule_def)

lemma css_loaders:
  "re_test css_test p \<Longrightarrow>
     loaders_for (webpack_config d) p = [''style-loader'', ''css-loader'']"
  by (simp add: loaders_for_def css_matching_rules css_rule_def)

text \<open>
  Claim C9. For every file whose name matches \<^verbatim>\<open>/\.s[ac]ss$/i\<close> the loaders run from
  the right of the \<^verbatim>\<open>use\<close> list to the left, in the fixed order \<^verbatim>\<open>sass-loader\<close>,
  \<^verbatim>\<open>css-loader\<close>, \<^verbatim>\<open>style-loader\<close> (no other rule adds a loader), so the compiled
  style is injected at runtime by the script bundle and not emitted as a CSS file of its
  own.
\<close>

theorem scss_chain_order:
  assumes "re_test scss_test p"
  shows "application_order (webpack_config d) p = [''sass-loader'', ''css-loader'', ''style-loader'']
    \<and> style_output_for (webpack_config d) p = InjectedAtRuntime"
  using scss_loaders [OF assms, of d]
  by (simp add: application_order_def style_output_for_def style_output_of_def)

lemma global_scss_matches: "re_test scss_test ''src/styles/global.scss''"
  unfolding scss_test_iff
  by (intro exI [of _ "''src/styles/global''"] exI [of _ "CHR ''.''"] exI [of _ "CHR ''s''"]
        exI [of _ "CHR ''c''"]) (simp add: char_match_def)

theorem scss_chain_order_witness:
  "re_test scss_test ''src/styles/global.scss''
   \<and> application_order (webpack_config ''/repo'') ''src/styles/global.scss''
       = [''sass-loader'', ''css-loader'', ''style-loader'']
   \<and> style_output_for (webpack_config ''/repo'') ''src/styles/global.scss'' = InjectedAtRuntime"
  using scss_chain_order [OF global_scss_matches, of "''/repo''"] global_scss_matches
  by simp

section \<open>A resolvable extension without a rule\<close>

text \<open>
  Claim C10. \<^verbatim>\<open>.tsx\<close> is one of the extension candidates of \<^verbatim>\<open>resolve.extensions\<close>,
  and to a file with that extension no rule applies: the test pattern \<^verbatim>\<open>/\.ts?$/\<close> of
  the script rule does not match a path that ends in \<^verbatim>\<open>.tsx\<close>, neither do the two
  style patterns, so the file has no loader at all.
\<close>

theorem tsx_without_rule:
  assumes "suffix ''.tsx'' p"
  shows "''.tsx'' \<in> set (extensions (resolve (webpack_config d)))
    \<and> \<not> re_test (test ts_rule) p
    \<and> matching_rules (webpack_config d) p = []
    \<and> loaders_for (webpack_config d) p = []"
  using tsx_not_ts [OF assms] tsx_matching_rules [OF assms, of d]
  by (simp add: loaders_for_def webpack_config_def ts_rule_def)

theorem tsx_without_rule_witness:
  "suffix ''.tsx'' ''src/App.tsx''
   \<and> ''.tsx'' \<in> set (extensions (resolve (webpack_config ''/repo'')))
   \<and> \<not> re_test (test ts_rule) ''src/App.tsx''
   \<and> matching_rules (webpack_config ''/repo'') ''src/App.tsx'' = []
   \<and> loaders_for (webpack_config ''/repo'') ''src/App.tsx'' = []"
proof -
  have s: "suffix ''.tsx'' ''src/App.tsx''"
    by (simp add: suffix_def)
  from tsx_without_rule [OF s, of "''/repo''"] s show ?thesis by simp
qed

section \<open>Styles and the mode\<close>

text \<open>The rules of the configuration do not look at the mode.\<close>

lemma with_mode_rules [simp]:
  "matching_rules (with_mode m cfg) p = matching_rules cfg p"
  by (simp add: matching_rules_def with_mode_def)

lemma with_mode_style [simp]:
  "style_output_for (with_mode m cfg) p = style_output_for cfg p"
  by (simp add: style_output_for_def application_order_def loaders_for_def)

text \<open>
  Claim C4 says that production mode emits the styles as separate CSS files. With the mode
  set to production the configuration still sends \<^verbatim>\<open>src/styles/global.scss\<close> through
  \<^verbatim>\<open>style-loader\<close>: the style is injected at runtime and is not a separate file.
\<close>

theorem production_separate_css_counterexample:
  "mode (with_mode Production (webpack_config ''/repo'')) = Production
   \<and> re_test scss_test ''src/styles/global.scss''
   \<and> style_output_for (with_mode Production (webpack_config ''/repo'')) ''src/styles/global.scss''
       = InjectedAtRuntime
   \<and> style_output_for (with_mode Production (webpack_config ''/repo'')) ''src/styles/global.scss''
       \<noteq> SeparateFile"
proof -
  have m: "mode (with_mode Production (webpack_config ''/repo'')) = Production"
    by (simp add: with_mode_def)
  have "style_output_for (webpack_config ''/repo'') ''src/styles/global.scss'' = InjectedAtRuntime"
    using scss_loaders [OF global_scss_matches, of "''/repo''"]
    by (simp add: style_output_for_def application_order_def style_output_of_def)
  with m global_scss_matches show ?thesis by simp
qed

text \<open>
  Claim C4, amended. The configured mode is development, and in development mode every file
  that the \<^verbatim>\<open>.css\<close> rule or the \<^verbatim>\<open>.s[ac]ss\<close> rule accepts is injected at runtime and
  not emitted as a separate file; with the mode set to production the same configuration
  does the same, it emits no separate CSS file.
\<close>

theorem styles_injected_in_every_mode:
  assumes "re_test css_test p \<or> re_test scss_test p"
  shows "mode (webpack_config d) = Development
    \<and> style_output_for (with_mode m (webpack_config d)) p = InjectedAtRuntime
    \<and> style_output_for (with_mode m (webpack_config d)) p \<noteq> SeparateFile"
proof -
  from assms have "style_output_for (webpack_config d) p = InjectedAtRuntime"
  proof
    assume "re_test css_test p"
    then show ?thesis
      by (simp add: css_loaders style_output_for_def application_order_def style_output_of_def)
  next
    assume "re_test scss_test p"
    then show ?thesis
      by (simp add: scss_loaders style_output_for_def application_order_def style_output_of_def)
  qed
  then show ?thesis by (simp add: webpack_config_def)
qed

theorem styles_injected_in_every_mode_witness:
  "(re_test css_test ''src/styles/global.scss'' \<or> re_test scss_test ''src/styles/global.scss'')
   \<and> style_output_for (with_mode Production (webpack_config ''/repo'')) ''src/styles/global.scss''
       = InjectedAtRuntime
   \<and> style_output_for (with_mode Development (webpack_config ''/repo'')) ''src/styles/global.scss''
       = InjectedAtRuntime"
proof -
  have h: "re_test css_test ''src/styles/global.scss'' \<or> re_test scss_test ''src/styles/global.scss''"
    using global_scss_matches by simp
  from styles_injected_in_every_mode [OF h, of "''/repo''" Production]
    styles_injected_in_every_mode [OF h, of "''/repo''" Development] h
  show ?thesis by simp
qed

section \<open>The scenario of the entry module\<close>

lemma test_js_no_loaders: "loaders_for (webpack_config d) ''src/test.js'' = []"
proof -
  have "\<not> re_test ts_test ''src/test.js''"
    by (simp add: ts_test_iff suffix_def)
  moreover have "\<not> re_test css_test ''src/test.js''"
  proof
    assume "re_test css_test ''src/test.js''"
    then obtain q a b c e where q: "''src/test.js'' = q @ [a, b, c, e]"
      and a: "char_match True CHR ''.'' a" unfolding css_test_iff by blast
    from q have "a = CHR ''t''" by auto
    with a show False by (simp add: char_match_def)
  qed
  moreover have "\<not> re_test scss_test ''src/test.js''"
  proof
    assume "re_test scss_test ''src/test.js''"
    then obtain q a b c e f where q: "''src/test.js'' = q @ [a, b, c, e, f]"
      and a: "char_match True CHR ''.'' a" unfolding scss_test_iff by blast
    from q have "a = CHR ''s''" by auto
    with a show False by (simp add: char_match_def)
  qed
  ultimately show ?thesis
    by (simp add: loaders_for_def matching_rules_def rule_applies_simps)
qed

text \<open>
  Claim C1. For the configured entry point \<^verbatim>\<open>./src/index.ts\<close>, which imports a style
  and a utility module that exports \<^verbatim>\<open>foo\<close>, the build succeeds with one HTML shell
  (from the template \<^verbatim>\<open>./public/index.html\<close>) that refers to exactly one script chunk;
  the mode is development and the one style is inlined, there is no separate style file;
  and running the script chunk calls \<^verbatim>\<open>foo\<close> exactly once, with the argument
  \<^verbatim>\<open>'hello world'\<close>.
\<close>

theorem scenario_build:
  "emit (webpack_config d) scenario_imports index_ts =
     Inr \<lparr>html_shells =
            [\<lparr>shell_template = ''./public/index.html'',
              script_refs = [''./src/index.ts''],
              style_refs = []\<rparr>],
          script_chunks = [(''./src/index.ts'', index_ts)],
          style_files = [],
          injected_styles = [''src/styles/global.scss'']\<rparr>
   \<and> mode (webpack_config d) = Development
   \<and> execute index_ts = Inr [(''foo'', ''hello world'')]"
proof -
  have scss: "style_output_for (webpack_config d) ''src/styles/global.scss'' = InjectedAtRuntime"
    using scss_loaders [OF global_scss_matches, of d]
    by (simp add: style_output_for_def application_order_def style_output_of_def)
  have js: "style_output_for (webpack_config d) ''src/test.js'' = NoStyleOutput"
    by (simp add: style_output_for_def application_order_def style_output_of_def
          test_js_no_loaders)
  have files: "resolve_all scenario_imports (entry (webpack_config d)) (import_specifiers index_ts)
      = Inr [''src/styles/global.scss'', ''src/test.js'']"
    by (simp add: scenario_imports_def index_ts_def)
  have build: "emit (webpack_config d) scenario_imports index_ts =
     Inr \<lparr>html_shells =
            [\<lparr>shell_template = ''./public/index.html'',
              script_refs = [''./src/index.ts''],
              style_refs = []\<rparr>],
          script_chunks = [(''./src/index.ts'', index_ts)],
          style_files = [],
          injected_styles = [''src/styles/global.scss'']\<rparr>"
    unfolding emit_def files
    by (simp add: scss js entry_points_def Let_def) (simp add: webpack_config_def)
  have run: "execute index_ts = Inr [(''foo'', ''hello world'')]"
    by (simp add: execute_def index_ts_def)
  from build run show ?thesis by (simp add: webpack_config_def)
qed

end
